theory Spec2Isabelle
  imports Main
begin

section \<open>Media resource resolver (src/r2/config.ts, src/r2/services.ts)\<close>

text \<open>
  A media reference is a JavaScript value of type \<^verbatim>\<open>string | undefined\<close>: it is modelled
  as \<^typ>\<open>string option\<close>, with \<^term>\<open>None\<close> for \<^verbatim>\<open>undefined\<close>. The test \<^verbatim>\<open>!url\<close> of the
  source is true for \<^verbatim>\<open>undefined\<close> and for the empty string.
\<close>

definition R2_PUBLIC_URL :: string where
  "R2_PUBLIC_URL = ''https://pub-c6afb0e9c6e14b0f9d9f4aec83b93b1b.r2.dev''"

definition R2_BUCKET_AUDIO :: string where
  "R2_BUCKET_AUDIO = ''tunetalez-audio''"

definition R2_BUCKET_IMAGES :: string where
  "R2_BUCKET_IMAGES = ''tunetalez-images''"

definition R2_BUCKET_THUMBNAILS :: string where
  "R2_BUCKET_THUMBNAILS = ''tunetalez-thumbnails''"

definition R2_BUCKET_PDFS :: string where
  "R2_BUCKET_PDFS = ''tunetalez-pdfs''"

text \<open>\<^verbatim>\<open>s.startsWith(p)\<close> of JavaScript.\<close>

definition startsWith :: "string \<Rightarrow> string \<Rightarrow> bool" where
  "startsWith s p = (take (length p) s = p)"

definition getR2PublicUrl :: "string \<Rightarrow> string" where
  "getR2PublicUrl path =
     (if startsWith path ''http'' then path else R2_PUBLIC_URL @ ''/'' @ path)"

definition getThumbnailUrl :: "string \<Rightarrow> string" where
  "getThumbnailUrl filename = getR2PublicUrl (R2_BUCKET_THUMBNAILS @ ''/'' @ filename)"

definition getAudioUrl :: "string \<Rightarrow> string" where
  "getAudioUrl filename = getR2PublicUrl (R2_BUCKET_AUDIO @ ''/'' @ filename)"

definition getImageUrl :: "string \<Rightarrow> string" where
  "getImageUrl filename = getR2PublicUrl (R2_BUCKET_IMAGES @ ''/'' @ filename)"

definition getPdfUrl :: "string \<Rightarrow> string" where
  "getPdfUrl filename = getR2PublicUrl (R2_BUCKET_PDFS @ ''/'' @ filename)"

definition THUMBNAIL_PLACEHOLDER :: string where
  "THUMBNAIL_PLACEHOLDER = ''https://via.placeholder.com/150x200/333333/FFFFFF?text=No+Cover''"

definition IMAGE_PLACEHOLDER :: string where
  "IMAGE_PLACEHOLDER = ''https://via.placeholder.com/400x300/333333/FFFFFF?text=No+Image''"

definition processThumbnailUrl :: "string option \<Rightarrow> string" where
  "processThumbnailUrl url =
     (case url of
        None \<Rightarrow> THUMBNAIL_PLACEHOLDER
      | Some u \<Rightarrow>
          if u = [] then THUMBNAIL_PLACEHOLDER
          else if startsWith u ''http'' then u
          else getThumbnailUrl u)"

definition processAudioUrl :: "string option \<Rightarrow> string option" where
  "processAudioUrl url =
     (case url of
        None \<Rightarrow> None
      | Some u \<Rightarrow>
          if u = [] then None
          else if startsWith u ''http'' then Some u
          else Some (getAudioUrl u))"

definition processImageUrl :: "string option \<Rightarrow> string" where
  "processImageUrl url =
     (case url of
        None \<Rightarrow> IMAGE_PLACEHOLDER
      | Some u \<Rightarrow>
          if u = [] then IMAGE_PLACEHOLDER
          else if startsWith u ''http'' then u
          else getImageUrl u)"

definition processPdfUrl :: "string option \<Rightarrow> string option" where
  "processPdfUrl url =
     (case url of
        None \<Rightarrow> None
      | Some u \<Rightarrow>
          if u = [] then None
          else if startsWith u ''http'' then Some u
          else Some (getPdfUrl u))"

text \<open>
  \<^verbatim>\<open>processBookUrls\<close> is generic in the record type \<^verbatim>\<open>T extends { thumbnailUrl?, audioUrl? }\<close>.
  The two URL fields are the fields of an extensible record; every other field of \<^verbatim>\<open>T\<close>
  lives in the extension part. The object spread \<^verbatim>\<open>{...book, thumbnailUrl: .., audioUrl: ..}\<close>
  copies the record and overwrites the two fields.
\<close>

record url_fields =
  thumbnailUrl :: "string option"
  audioUrl :: "string option"

text \<open>The remaining fields of \<^verbatim>\<open>Book\<close> (src/types/book.ts) that the screens read.\<close>

record book = url_fields +
  book_id :: string
  title :: string
  author :: string
  description :: "string option"
  content :: "string option"
  tags :: "string list option"
  category :: "string option"

definition processBookUrls :: "'a url_fields_scheme \<Rightarrow> 'a url_fields_scheme" where
  "processBookUrls b =
     b\<lparr> thumbnailUrl := Some (processThumbnailUrl (thumbnailUrl b)),
        audioUrl := (case audioUrl b of
                       None \<Rightarrow> None
                     | Some u \<Rightarrow> if u = [] then None else processAudioUrl (Some u)) \<rparr>"

subsection \<open>The specification's notion of an absolute reference\<close>

text \<open>
  The specification speaks of a reference that "begins with a URI scheme". This predicate
  follows those words (RFC 3986: a letter, then letters, digits, \<open>+\<close>, \<open>-\<close> or \<open>.\<close>, then a
  colon); it is not part of the program and is only compared with the test the program makes.
\<close>

definition is_alpha :: "char \<Rightarrow> bool" where
  "is_alpha c = (let n = (of_char c :: nat) in (65 \<le> n \<and> n \<le> 90) \<or> (97 \<le> n \<and> n \<le> 122))"

definition is_scheme_char :: "char \<Rightarrow> bool" where
  "is_scheme_char c =
     (let n = (of_char c :: nat) in
        is_alpha c \<or> (48 \<le> n \<and> n \<le> 57) \<or> c = CHR ''+'' \<or> c = CHR ''-'' \<or> c = CHR ''.'')"

definition spec_has_uri_scheme :: "string \<Rightarrow> bool" where
  "spec_has_uri_scheme s =
     (case s of
        [] \<Rightarrow> False
      | c # cs \<Rightarrow>
          is_alpha c \<and>
          (case dropWhile is_scheme_char cs of [] \<Rightarrow> False | d # _ \<Rightarrow> d = CHR '':''))"


section \<open>Audio player (src/components/AudioPlayer.tsx)\<close>

subsection \<open>The playback library\<close>

text \<open>
  Modelled from the spec: the sound object of the playback library (\<^verbatim>\<open>Audio.Sound\<close> of expo-av),
  which the component imports and which is not part of the repository. A sound holds the
  decoder resource while it is loaded. \<^verbatim>\<open>playAsync\<close>, \<^verbatim>\<open>pauseAsync\<close>, \<^verbatim>\<open>stopAsync\<close> and
  \<^verbatim>\<open>setPositionAsync\<close> reject when the sound is not loaded; \<^verbatim>\<open>unloadAsync\<close> releases the
  resource and never rejects. \<^verbatim>\<open>stopAsync\<close> is modelled as halting output only, so that what
  is proved about the position after a stop rests on the seek the component itself issues.
  A handle is the index of the sound in the list of all sounds ever created.
\<close>

type_synonym handle = nat

record native_sound =
  uri :: string
  loaded :: bool
  positionMillis :: int
  durationMillis :: "int option"
  playing :: bool

text \<open>
  The playback status passed to the callback and returned by \<^verbatim>\<open>getStatusAsync\<close>: either
  \<^verbatim>\<open>{isLoaded: true, positionMillis, durationMillis, isPlaying}\<close> or
  \<^verbatim>\<open>{isLoaded: false, error}\<close>.
\<close>

datatype status =
    StatusLoaded int "int option" bool
  | StatusUnloaded "string option"

definition getStatus :: "native_sound \<Rightarrow> status" where
  "getStatus ns =
     (if loaded ns then StatusLoaded (positionMillis ns) (durationMillis ns) (playing ns)
      else StatusUnloaded None)"

datatype call = PlayAsync | PauseAsync | StopAsync | SetPositionAsync int | UnloadAsync

fun native :: "call \<Rightarrow> native_sound \<Rightarrow> native_sound option" where
  "native UnloadAsync ns = Some (ns\<lparr>loaded := False, playing := False\<rparr>)"
| "native PlayAsync ns = (if loaded ns then Some (ns\<lparr>playing := True\<rparr>) else None)"
| "native PauseAsync ns = (if loaded ns then Some (ns\<lparr>playing := False\<rparr>) else None)"
| "native StopAsync ns = (if loaded ns then Some (ns\<lparr>playing := False\<rparr>) else None)"
| "native (SetPositionAsync p) ns =
     (if loaded ns then Some (ns\<lparr>positionMillis := p\<rparr>) else None)"

subsection \<open>The component\<close>

text \<open>
  The first six fields are the \<^verbatim>\<open>useState\<close> cells of the component and \<open>propAudioUrl\<close> is its
  \<^verbatim>\<open>audioUrl\<close> prop. The remaining fields are what the run time holds for it:
  \<^item> \<open>mounted\<close>: the component is on screen (state setters of an unmounted component do nothing);
  \<^item> \<open>cleanupSound\<close>: the value of \<^verbatim>\<open>sound\<close> captured by the cleanup function that the
    \<^verbatim>\<open>[audioUrl]\<close> effect returned when it last ran;
  \<^item> \<open>interval\<close>: the timer of the polling effect, if one is set, with the \<^verbatim>\<open>sound\<close> its
    callback captured;
  \<^item> \<open>pollDeps\<close>: the dependencies \<^verbatim>\<open>[isPlaying, sound]\<close> at the last run of the polling effect;
  \<^item> \<open>inflight\<close>: the URIs of the \<^verbatim>\<open>createAsync\<close> calls that have not settled yet, oldest first;
  \<^item> \<open>engine\<close>: every sound created so far.
\<close>

record player =
  sound :: "handle option"
  isPlaying :: bool
  isLoading :: bool
  position :: int
  duration :: int
  error :: "string option"
  propAudioUrl :: string
  mounted :: bool
  cleanupSound :: "handle option"
  interval :: "handle option option"
  pollDeps :: "(bool \<times> handle option) option"
  inflight :: "string list"
  engine :: "native_sound list"

text \<open>\<^verbatim>\<open>status.durationMillis || 0\<close>: an unknown duration reads as 0.\<close>

definition durationOr0 :: "int option \<Rightarrow> int" where
  "durationOr0 d = (case d of None \<Rightarrow> 0 | Some x \<Rightarrow> x)"

definition onPlaybackStatusUpdate :: "status \<Rightarrow> player \<Rightarrow> player" where
  "onPlaybackStatusUpdate st c =
     (case st of
        StatusLoaded p d pl \<Rightarrow> c\<lparr>position := p, duration := durationOr0 d, isPlaying := pl\<rparr>
      | StatusUnloaded err \<Rightarrow>
          (case err of
             None \<Rightarrow> c
           | Some e \<Rightarrow> if e = [] then c else c\<lparr>error := Some (''Playback error: '' @ e)\<rparr>))"

text \<open>The library invokes the callback registered with \<^verbatim>\<open>createAsync\<close> on every new status.\<close>

definition deliver :: "status \<Rightarrow> player \<Rightarrow> player" where
  "deliver st c = (if mounted c then onPlaybackStatusUpdate st c else c)"

text \<open>
  \<open>perform h cs c\<close> runs the awaited library calls \<open>cs\<close> on sound \<open>h\<close> in order. Each call that
  resolves changes the sound and reports its new status to the callback. The first call that
  rejects ends the sequence (control passes to the \<^verbatim>\<open>catch\<close> block); the flag is \<open>False\<close> then.
\<close>

fun perform :: "handle \<Rightarrow> call list \<Rightarrow> player \<Rightarrow> player \<times> bool" where
  "perform h [] c = (c, True)"
| "perform h (x # xs) c =
     (if h < length (engine c) then
        (case native x (engine c ! h) of
           None \<Rightarrow> (c, False)
         | Some ns \<Rightarrow> perform h xs (deliver (getStatus ns) (c\<lparr>engine := (engine c)[h := ns]\<rparr>)))
      else (c, False))"

text \<open>
  \<^verbatim>\<open>loadSound\<close> up to its call of \<^verbatim>\<open>createAsync\<close>: it reads \<^verbatim>\<open>sound\<close> and \<^verbatim>\<open>audioUrl\<close> of the
  render it was created in. The part after \<^verbatim>\<open>await createAsync\<close> runs when that promise
  settles (\<open>createResolved\<close>, \<open>createRejected\<close> below).
\<close>

definition loadSound :: "player \<Rightarrow> player" where
  "loadSound c =
     (let c1 = c\<lparr>isLoading := True, error := None\<rparr>;
          (c2, ok) = (case sound c of None \<Rightarrow> (c1, True) | Some h \<Rightarrow> perform h [UnloadAsync] c1)
      in if ok then c2\<lparr>inflight := inflight c2 @ [propAudioUrl c]\<rparr>
         else c2\<lparr>error := Some ''Failed to load audio'', isLoading := False\<rparr>)"

definition removeAt :: "nat \<Rightarrow> 'a list \<Rightarrow> 'a list" where
  "removeAt k xs = take k xs @ drop (Suc k) xs"

text \<open>
  The \<open>k\<close>-th pending \<^verbatim>\<open>createAsync\<close> resolves with a new loaded sound of duration \<open>d\<close>
  (\<^verbatim>\<open>shouldPlay: false\<close>): the library reports the initial status, then \<^verbatim>\<open>loadSound\<close> resumes
  with \<^verbatim>\<open>setSound(newSound); setIsLoading(false)\<close>.
\<close>

definition createResolved :: "nat \<Rightarrow> int option \<Rightarrow> player \<Rightarrow> player" where
  "createResolved k d c =
     (if k < length (inflight c) then
        (let h = length (engine c);
             ns = \<lparr>uri = inflight c ! k, loaded = True, positionMillis = 0,
                   durationMillis = d, playing = False\<rparr>;
             c1 = c\<lparr>inflight := removeAt k (inflight c), engine := engine c @ [ns]\<rparr>;
             c2 = deliver (getStatus ns) c1
         in if mounted c2 then c2\<lparr>sound := Some h, isLoading := False\<rparr> else c2)
      else c)"

text \<open>
  \<^verbatim>\<open>try { .. } catch (error) { .. }\<close>. The first argument is how the \<^verbatim>\<open>try\<close> block was left:
  the state at that point, and \<open>True\<close> when it ran to its end, \<open>False\<close> when an awaited promise
  rejected in it. A rejection runs the handler, and the statement ends normally. The result
  has the same form, so \<open>False\<close> in a result is an exception that leaves the statement.
\<close>

definition try_catch :: "player \<times> bool \<Rightarrow> (player \<Rightarrow> player) \<Rightarrow> player \<times> bool" where
  "try_catch r handler = (if snd r then r else (handler (fst r), True))"

text \<open>
  The \<^verbatim>\<open>catch\<close> block of \<^verbatim>\<open>loadSound\<close>: it logs the exception and calls
  \<^verbatim>\<open>setError('Failed to load audio'); setIsLoading(false)\<close>.
\<close>

definition loadSound_catch :: "player \<Rightarrow> player" where
  "loadSound_catch c =
     (if mounted c then c\<lparr>error := Some ''Failed to load audio'', isLoading := False\<rparr> else c)"

text \<open>
  The \<open>k\<close>-th pending \<^verbatim>\<open>createAsync\<close> rejects: \<^verbatim>\<open>await\<close> throws inside the \<^verbatim>\<open>try\<close> block of
  \<^verbatim>\<open>loadSound\<close>, which spans its whole body, and the \<^verbatim>\<open>catch\<close> block runs. The flag of
  \<open>createRejected_outcome\<close> tells whether \<^verbatim>\<open>loadSound\<close> ended normally, that is, whether the
  promise it returned resolves rather than rejects.
\<close>

definition createRejected_outcome :: "nat \<Rightarrow> player \<Rightarrow> player \<times> bool" where
  "createRejected_outcome k c =
     (if k < length (inflight c)
      then try_catch (c\<lparr>inflight := removeAt k (inflight c)\<rparr>, False) loadSound_catch
      else (c, True))"

definition createRejected :: "nat \<Rightarrow> player \<Rightarrow> player" where
  "createRejected k c = fst (createRejected_outcome k c)"

text \<open>The library calls that \<^verbatim>\<open>togglePlayPause\<close> awaits, in order.\<close>

definition togglePlayPause_calls :: "player \<Rightarrow> call list" where
  "togglePlayPause_calls c =
     (if isPlaying c then [PauseAsync]
      else (if position c \<ge> duration c \<and> duration c > 0 then [SetPositionAsync 0] else [])
           @ [PlayAsync])"

definition togglePlayPause :: "player \<Rightarrow> player" where
  "togglePlayPause c =
     (case sound c of
        None \<Rightarrow> c
      | Some h \<Rightarrow>
          (let (c', ok) = perform h (togglePlayPause_calls c) c
           in if ok then c' else c'\<lparr>error := Some ''Failed to play/pause audio''\<rparr>))"

definition stopAudio :: "player \<Rightarrow> player" where
  "stopAudio c =
     (case sound c of
        None \<Rightarrow> c
      | Some h \<Rightarrow> fst (perform h [StopAsync, SetPositionAsync 0] c))"

definition restartAudio :: "player \<Rightarrow> player" where
  "restartAudio c =
     (case sound c of
        None \<Rightarrow> c
      | Some h \<Rightarrow>
          fst (perform h (SetPositionAsync 0 # (if \<not> isPlaying c then [PlayAsync] else [])) c))"

subsection \<open>Effects\<close>

text \<open>
  The \<^verbatim>\<open>[audioUrl]\<close> effect calls \<^verbatim>\<open>loadSound\<close> and returns a cleanup that closes over the
  \<^verbatim>\<open>sound\<close> of the render the effect ran in. The cleanup calls \<^verbatim>\<open>unloadAsync\<close> on that sound.
\<close>

definition audioEffect :: "player \<Rightarrow> player" where
  "audioEffect c = (loadSound c)\<lparr>cleanupSound := sound c\<rparr>"

definition audioCleanup :: "player \<Rightarrow> player" where
  "audioCleanup c =
     (case cleanupSound c of None \<Rightarrow> c | Some h \<Rightarrow> fst (perform h [UnloadAsync] c))"

text \<open>
  The \<^verbatim>\<open>[isPlaying, sound]\<close> effect: when a dependency has changed, the previous cleanup clears
  the old timer and the effect sets a new one if \<^verbatim>\<open>isPlaying\<close>.
\<close>

definition pollEffect :: "player \<Rightarrow> player" where
  "pollEffect c =
     (if pollDeps c = Some (isPlaying c, sound c) then c
      else c\<lparr>interval := (if isPlaying c then Some (sound c) else None),
              pollDeps := Some (isPlaying c, sound c)\<rparr>)"

definition commit :: "player \<Rightarrow> player" where
  "commit c = (if mounted c then pollEffect c else c)"

text \<open>
  One tick of the timer: \<^verbatim>\<open>getStatusAsync\<close> on the captured sound (the library reports the
  status it returns to the callback as well), then the two setters when the sound is loaded.
\<close>

definition pollTick :: "player \<Rightarrow> player" where
  "pollTick c =
     (case interval c of
        None \<Rightarrow> c
      | Some None \<Rightarrow> c
      | Some (Some h) \<Rightarrow>
          (if h < length (engine c) then
             (let st = getStatus (engine c ! h); c1 = deliver st c
              in case st of
                   StatusLoaded p d pl \<Rightarrow>
                     if mounted c1 then c1\<lparr>position := p, duration := durationOr0 d\<rparr> else c1
                 | StatusUnloaded e \<Rightarrow> c1)
           else c))"

text \<open>The first render of the component with its effects.\<close>

definition mount :: "string \<Rightarrow> player" where
  "mount u =
     commit (audioEffect
       \<lparr>sound = None, isPlaying = False, isLoading = False, position = 0, duration = 0,
        error = None, propAudioUrl = u, mounted = True, cleanupSound = None,
        interval = None, pollDeps = None, inflight = [], engine = []\<rparr>)"

definition changeUrl :: "string \<Rightarrow> player \<Rightarrow> player" where
  "changeUrl u c =
     (if mounted c \<and> u \<noteq> propAudioUrl c
      then audioEffect (audioCleanup (c\<lparr>propAudioUrl := u\<rparr>))
      else c)"

definition unmount :: "player \<Rightarrow> player" where
  "unmount c =
     (if mounted c then audioCleanup (c\<lparr>mounted := False, interval := None\<rparr>) else c)"

subsection \<open>What the playback library does on its own\<close>

text \<open>
  Modelled from the spec: playback of a loaded, playing sound advances by \<open>ms\<close> and stops by
  itself at the end of the track; a fatal playback error unloads the sound and reports
  \<^verbatim>\<open>{isLoaded: false, error}\<close>. Both report the new status to the callback.
\<close>

definition nativeAdvance :: "handle \<Rightarrow> int \<Rightarrow> player \<Rightarrow> player" where
  "nativeAdvance h ms c =
     (if h < length (engine c) \<and> loaded (engine c ! h) \<and> playing (engine c ! h) \<and> 0 \<le> ms then
        (let ns = engine c ! h;
             p = positionMillis ns + ms;
             ns' = (case durationMillis ns of
                      None \<Rightarrow> ns\<lparr>positionMillis := p\<rparr>
                    | Some d \<Rightarrow> if p \<ge> d then ns\<lparr>positionMillis := d, playing := False\<rparr>
                               else ns\<lparr>positionMillis := p\<rparr>)
         in deliver (getStatus ns') (c\<lparr>engine := (engine c)[h := ns']\<rparr>))
      else c)"

definition nativeFail :: "handle \<Rightarrow> string \<Rightarrow> player \<Rightarrow> player" where
  "nativeFail h msg c =
     (if h < length (engine c) \<and> loaded (engine c ! h) then
        deliver (StatusUnloaded (Some msg))
          (c\<lparr>engine := (engine c)[h := (engine c ! h)\<lparr>loaded := False, playing := False\<rparr>]\<rparr>)
      else c)"

subsection \<open>Runs\<close>

text \<open>
  Everything runs on one thread. An event is a render with a new prop, the unmount, the
  settling of a pending \<^verbatim>\<open>createAsync\<close>, a button press, a timer tick, or something the
  library does on its own. The handlers of the buttons are \<^verbatim>\<open>async\<close>; each is run to its
  end within its event, except \<^verbatim>\<open>loadSound\<close>, which is split at \<^verbatim>\<open>await createAsync\<close>.
  After each event the component re-renders and its effects run (\<open>commit\<close>); renders
  between the awaits of one handler are not modelled, the timer after the last one is the
  same. \<open>step\<close> runs the handler of a button in every state of a mounted component, as the
  function it is; \<open>ui_step\<close> further below admits a press only when the view shown renders
  the button.
\<close>

datatype event =
    ChangeUrl string
  | Unmount
  | CreateResolved nat "int option"
  | CreateRejected nat
  | PressPlayPause
  | PressStop
  | PressRestart
  | PressRetry
  | Tick
  | NativeAdvance handle int
  | NativeFail handle string

fun handle_event :: "event \<Rightarrow> player \<Rightarrow> player" where
  "handle_event (ChangeUrl u) c = changeUrl u c"
| "handle_event Unmount c = unmount c"
| "handle_event (CreateResolved k d) c = createResolved k d c"
| "handle_event (CreateRejected k) c = createRejected k c"
| "handle_event PressPlayPause c = (if mounted c then togglePlayPause c else c)"
| "handle_event PressStop c = (if mounted c then stopAudio c else c)"
| "handle_event PressRestart c = (if mounted c then restartAudio c else c)"
| "handle_event PressRetry c = (if mounted c then loadSound c else c)"
| "handle_event Tick c = pollTick c"
| "handle_event (NativeAdvance h ms) c = nativeAdvance h ms c"
| "handle_event (NativeFail h msg) c = nativeFail h msg c"

definition step :: "event \<Rightarrow> player \<Rightarrow> player" where
  "step e c = commit (handle_event e c)"

fun run :: "event list \<Rightarrow> player \<Rightarrow> player" where
  "run [] c = c"
| "run (e # es) c = run es (step e c)"

text \<open>
  What the render function shows (\<^verbatim>\<open>error ? .. : isLoading ? .. : ..\<close>): the error view with
  its Retry button, the loading view with no button, or the controls (restart, play/pause,
  stop). \<^verbatim>\<open>togglePlayPause\<close>, \<^verbatim>\<open>stopAudio\<close> and \<^verbatim>\<open>restartAudio\<close> have no caller but their
  button, and \<^verbatim>\<open>loadSound\<close> none but the \<^verbatim>\<open>[audioUrl]\<close> effect and Retry.
\<close>

datatype view = ErrorView | LoadingView | ControlsView

definition render_view :: "player \<Rightarrow> view" where
  "render_view c =
     (case error c of
        Some (x # xs) \<Rightarrow> ErrorView
      | _ \<Rightarrow> if isLoading c then LoadingView else ControlsView)"

fun enabled :: "event \<Rightarrow> player \<Rightarrow> bool" where
  "enabled PressPlayPause c = (mounted c \<and> render_view c = ControlsView)"
| "enabled PressStop c = (mounted c \<and> render_view c = ControlsView)"
| "enabled PressRestart c = (mounted c \<and> render_view c = ControlsView)"
| "enabled PressRetry c = (mounted c \<and> render_view c = ErrorView)"
| "enabled e c = True"

definition ui_step :: "event \<Rightarrow> player \<Rightarrow> player" where
  "ui_step e c = (if enabled e c then step e c else c)"

fun ui_run :: "event list \<Rightarrow> player \<Rightarrow> player" where
  "ui_run [] c = c"
| "ui_run (e # es) c = ui_run es (ui_step e c)"

text \<open>The handles of the sounds that hold a decoder resource.\<close>

definition held :: "player \<Rightarrow> handle list" where
  "held c = filter (\<lambda>h. loaded (engine c ! h)) [0..<length (engine c)]"

text \<open>
  The playback state that the component shows, read off its render function
  (\<^verbatim>\<open>error ? .. : isLoading ? .. : ..\<close>): the error view, the loading view, or the controls,
  whose middle button is "pause" when \<^verbatim>\<open>isPlaying\<close> and "play" otherwise. The component
  keeps no flag that tells a paused sound from a ready one; both are \<open>Ready\<close> here.
\<close>

datatype playback_state = Idle | Loading | Ready | Playing | Error string

definition playbackState :: "player \<Rightarrow> playback_state" where
  "playbackState c =
     (case error c of
        Some (x # xs) \<Rightarrow> Error (x # xs)
      | _ \<Rightarrow>
          if isLoading c then Loading
          else (case sound c of
                  None \<Rightarrow> Idle
                | Some h \<Rightarrow> if isPlaying c then Playing else Ready))"


subsection \<open>Invariants and scenarios\<close>

text \<open>
  After every render the timer mirrors the \<^verbatim>\<open>isPlaying\<close> cell: the polling effect last ran
  with the current dependencies, and a timer is set exactly when \<^verbatim>\<open>isPlaying\<close> is true; an
  unmounted component has no timer.
\<close>

definition poll_inv :: "player \<Rightarrow> bool" where
  "poll_inv c =
     (if mounted c
      then pollDeps c = Some (isPlaying c, sound c) \<and>
           interval c = (if isPlaying c then Some (sound c) else None)
      else interval c = None)"

text \<open>While the component has never held a sound, nothing plays.\<close>

definition quiet_inv :: "player \<Rightarrow> bool" where
  "quiet_inv c =
     (sound c = None \<longrightarrow> \<not> isPlaying c \<and> list_all (\<lambda>ns. \<not> playing ns) (engine c))"

text \<open>
  Chapter \<open>a.mp3\<close> is selected, then chapter \<open>b.mp3\<close> before the first load has settled;
  the load of \<open>a.mp3\<close> settles first (\<open>scenario_stale_first\<close>) or last (\<open>scenario_stale_last\<close>).
\<close>

definition scenario_stale_first :: player where
  "scenario_stale_first =
     run [ChangeUrl ''b.mp3'', CreateResolved 0 (Some 10000)] (mount ''a.mp3'')"

definition scenario_stale_last :: player where
  "scenario_stale_last =
     run [ChangeUrl ''b.mp3'', CreateResolved 1 (Some 10000), CreateResolved 0 (Some 5000)]
       (mount ''a.mp3'')"

text \<open>The player is shown, its sound loads, and the player is closed.\<close>

definition scenario_unmount :: player where
  "scenario_unmount = run [CreateResolved 0 (Some 10000), Unmount] (mount ''a.mp3'')"

text \<open>Two chapters selected in quick succession, both loads succeed.\<close>

definition scenario_two_held :: player where
  "scenario_two_held =
     run [ChangeUrl ''b.mp3'', CreateResolved 0 (Some 10000), CreateResolved 0 (Some 10000)]
       (mount ''a.mp3'')"

text \<open>A track of 10000 ms is loaded; then play is pressed.\<close>

definition scenario_ready :: player where
  "scenario_ready = run [CreateResolved 0 (Some 10000)] (mount ''a.mp3'')"

definition scenario_playing :: player where
  "scenario_playing = run [PressPlayPause] scenario_ready"

text \<open>
  While the track plays: a fatal playback error; a switch to a URL that fails to load; a
  switch to another chapter.
\<close>

definition scenario_playback_error :: player where
  "scenario_playback_error = run [NativeFail 0 ''decoder lost''] scenario_playing"

definition scenario_failed_reload :: player where
  "scenario_failed_reload = run [ChangeUrl ''bad-url'', CreateRejected 0] scenario_playing"

definition scenario_reselect :: player where
  "scenario_reselect = run [ChangeUrl ''b.mp3''] scenario_playing"

text \<open>The track plays to its end; the track plays for two seconds.\<close>

definition scenario_finished :: player where
  "scenario_finished = run [NativeAdvance 0 20000] scenario_playing"

definition scenario_midway :: player where
  "scenario_midway = run [NativeAdvance 0 2000] scenario_playing"


section \<open>Properties of the resolver\<close>


lemma bucket_path_not_http:
  "\<not> startsWith (R2_BUCKET_AUDIO @ ''/'' @ f) ''http''"
  "\<not> startsWith (R2_BUCKET_IMAGES @ ''/'' @ f) ''http''"
  "\<not> startsWith (R2_BUCKET_THUMBNAILS @ ''/'' @ f) ''http''"
  "\<not> startsWith (R2_BUCKET_PDFS @ ''/'' @ f) ''http''"
  by (simp_all add: startsWith_def R2_BUCKET_AUDIO_def R2_BUCKET_IMAGES_def
      R2_BUCKET_THUMBNAILS_def R2_BUCKET_PDFS_def)



lemma getAudioUrl_eq: "getAudioUrl f = R2_PUBLIC_URL @ ''/'' @ R2_BUCKET_AUDIO @ ''/'' @ f"
  using bucket_path_not_http(1) [of f] by (simp add: getAudioUrl_def getR2PublicUrl_def)

lemma getImageUrl_eq: "getImageUrl f = R2_PUBLIC_URL @ ''/'' @ R2_BUCKET_IMAGES @ ''/'' @ f"
  using bucket_path_not_http(2) [of f] by (simp add: getImageUrl_def getR2PublicUrl_def)

lemma getThumbnailUrl_eq:
  "getThumbnailUrl f = R2_PUBLIC_URL @ ''/'' @ R2_BUCKET_THUMBNAILS @ ''/'' @ f"
  using bucket_path_not_http(3) [of f] by (simp add: getThumbnailUrl_def getR2PublicUrl_def)

lemma getPdfUrl_eq: "getPdfUrl f = R2_PUBLIC_URL @ ''/'' @ R2_BUCKET_PDFS @ ''/'' @ f"
  using bucket_path_not_http(4) [of f] by (simp add: getPdfUrl_def getR2PublicUrl_def)









text \<open>
  Claim C8 at its failing input. The bare file name \<open>http.mp3\<close> is not empty and has no URI
  scheme (it contains no colon). The comments of the resolvers say "If it's a relative path
  or just a filename, convert it to a full R2 URL", but the test for a full URL is the prefix
  \<open>http\<close> alone, so each resolver returns the file name as it is instead of joining it to the
  base and the bucket of its category.
\<close>

theorem C8_bare_http_name_returned_unchanged:
  "''http.mp3'' \<noteq> [] \<and> \<not> spec_has_uri_scheme ''http.mp3'' \<and>
   processAudioUrl (Some ''http.mp3'') = Some ''http.mp3'' \<and>
   processAudioUrl (Some ''http.mp3'') \<noteq>
     Some (R2_PUBLIC_URL @ ''/'' @ R2_BUCKET_AUDIO @ ''/'' @ ''http.mp3'') \<and>
   processPdfUrl (Some ''http.mp3'') = Some ''http.mp3'' \<and>
   processThumbnailUrl (Some ''http.mp3'') = ''http.mp3'' \<and>
   processImageUrl (Some ''http.mp3'') = ''http.mp3''"
  by (simp add: spec_has_uri_scheme_def is_alpha_def is_scheme_char_def processAudioUrl_def
      processPdfUrl_def processThumbnailUrl_def processImageUrl_def
      startsWith_def R2_PUBLIC_URL_def)

text \<open>
  Away from the prefix \<open>http\<close> the join is the one the resolvers document: for every non-empty
  reference that does not start with these four characters, each resolver returns the public
  base, a slash, the bucket of its category, a slash and the reference.
\<close>

lemma resolver_joins_base_and_bucket:
  assumes "u \<noteq> []" and "\<not> startsWith u ''http''"
  shows "processAudioUrl (Some u) = Some (R2_PUBLIC_URL @ ''/'' @ R2_BUCKET_AUDIO @ ''/'' @ u) \<and>
         processPdfUrl (Some u) = Some (R2_PUBLIC_URL @ ''/'' @ R2_BUCKET_PDFS @ ''/'' @ u) \<and>
         processThumbnailUrl (Some u) =
           R2_PUBLIC_URL @ ''/'' @ R2_BUCKET_THUMBNAILS @ ''/'' @ u \<and>
         processImageUrl (Some u) = R2_PUBLIC_URL @ ''/'' @ R2_BUCKET_IMAGES @ ''/'' @ u"
  using assms
  by (simp add: processAudioUrl_def processPdfUrl_def processThumbnailUrl_def
      processImageUrl_def getAudioUrl_eq getPdfUrl_eq getThumbnailUrl_eq getImageUrl_eq)

lemma resolver_joins_base_and_bucket_example:
  "processAudioUrl (Some ''a.mp3'') =
     Some ''https://pub-c6afb0e9c6e14b0f9d9f4aec83b93b1b.r2.dev/tunetalez-audio/a.mp3''"
proof -
  have h1: "''a.mp3'' \<noteq> []" by simp
  have h2: "\<not> startsWith ''a.mp3'' ''http''" by (simp add: startsWith_def)
  show ?thesis
    using resolver_joins_base_and_bucket [OF h1 h2]
    by (simp add: R2_PUBLIC_URL_def R2_BUCKET_AUDIO_def)
qed

text \<open>
  Claim C9: for an absent (\<^verbatim>\<open>undefined\<close>) or empty reference the audio and the document
  resolver return \<^verbatim>\<open>undefined\<close>, and the thumbnail and the image resolver return the fixed
  placeholder URL of their category.
\<close>

theorem C9_absent_reference:
  assumes "r = None \<or> r = Some []"
  shows "processAudioUrl r = None \<and> processPdfUrl r = None \<and>
         processThumbnailUrl r =
           ''https://via.placeholder.com/150x200/333333/FFFFFF?text=No+Cover'' \<and>
         processImageUrl r =
           ''https://via.placeholder.com/400x300/333333/FFFFFF?text=No+Image''"
  using assms
  by (auto simp: processAudioUrl_def processPdfUrl_def processThumbnailUrl_def
      processImageUrl_def THUMBNAIL_PLACEHOLDER_def IMAGE_PLACEHOLDER_def)

theorem C9_absent_reference_witness:
  "processAudioUrl (Some []) = None \<and> processPdfUrl (Some []) = None \<and>
   processThumbnailUrl (Some []) =
     ''https://via.placeholder.com/150x200/333333/FFFFFF?text=No+Cover'' \<and>
   processImageUrl (Some []) =
     ''https://via.placeholder.com/400x300/333333/FFFFFF?text=No+Image''"
proof -
  have h: "Some [] = None \<or> Some ([]::string) = Some []" by simp
  show ?thesis using C9_absent_reference [OF h] .
qed

text \<open>
  Claim C10: \<^verbatim>\<open>processBookUrls\<close> rewrites the two URL fields only. Every other field of the
  record (the whole extension part, whatever type \<^verbatim>\<open>T\<close> is) is the input's; for a \<^verbatim>\<open>Book\<close>
  this is each of its remaining fields.
\<close>

theorem C10_processBookUrls_frame:
  "url_fields.more (processBookUrls b) = url_fields.more b \<and>
   book_id (processBookUrls bk) = book_id bk \<and> title (processBookUrls bk) = title bk \<and>
   author (processBookUrls bk) = author bk \<and>
   description (processBookUrls bk) = description bk \<and>
   content (processBookUrls bk) = content bk \<and> tags (processBookUrls bk) = tags bk \<and>
   category (processBookUrls bk) = category bk \<and>
   thumbnailUrl (processBookUrls b) = Some (processThumbnailUrl (thumbnailUrl b)) \<and>
   audioUrl (processBookUrls b) = processAudioUrl (audioUrl b)"
  by (simp add: processBookUrls_def processAudioUrl_def split: option.splits)


section \<open>Properties of the audio player\<close>

subsection \<open>What a handler leaves alone\<close>

lemma createRejected_eq:
  "createRejected k c =
     (if k < length (inflight c) then loadSound_catch (c\<lparr>inflight := removeAt k (inflight c)\<rparr>)
      else c)"
  by (simp add: createRejected_def createRejected_outcome_def try_catch_def)

lemma deliver_frame:
  "sound (deliver st c) = sound c" "isLoading (deliver st c) = isLoading c"
  "mounted (deliver st c) = mounted c" "interval (deliver st c) = interval c"
  "pollDeps (deliver st c) = pollDeps c" "inflight (deliver st c) = inflight c"
  "engine (deliver st c) = engine c" "cleanupSound (deliver st c) = cleanupSound c"
  "propAudioUrl (deliver st c) = propAudioUrl c"
  by (simp_all add: deliver_def onPlaybackStatusUpdate_def split: status.splits option.splits)

lemma perform_frame:
  "sound (fst (perform h cs c)) = sound c \<and> isLoading (fst (perform h cs c)) = isLoading c \<and>
   mounted (fst (perform h cs c)) = mounted c \<and> interval (fst (perform h cs c)) = interval c \<and>
   pollDeps (fst (perform h cs c)) = pollDeps c \<and> inflight (fst (perform h cs c)) = inflight c \<and>
   cleanupSound (fst (perform h cs c)) = cleanupSound c \<and>
   propAudioUrl (fst (perform h cs c)) = propAudioUrl c \<and>
   length (engine (fst (perform h cs c))) = length (engine c)"
proof (induction cs arbitrary: c)
  case Nil
  show ?case by simp
next
  case (Cons x xs)
  show ?case
  proof (cases "h < length (engine c)")
    case False
    then show ?thesis by simp
  next
    case True
    show ?thesis
    proof (cases "native x (engine c ! h)")
      case None
      with True show ?thesis by simp
    next
      case (Some ns)
      with True show ?thesis
        using Cons.IH [of "deliver (getStatus ns) (c\<lparr>engine := (engine c)[h := ns]\<rparr>)"]
        by (simp add: deliver_frame)
    qed
  qed
qed

lemma perform_simps:
  "sound (fst (perform h cs c)) = sound c" "isLoading (fst (perform h cs c)) = isLoading c"
  "mounted (fst (perform h cs c)) = mounted c" "interval (fst (perform h cs c)) = interval c"
  "pollDeps (fst (perform h cs c)) = pollDeps c" "inflight (fst (perform h cs c)) = inflight c"
  "cleanupSound (fst (perform h cs c)) = cleanupSound c"
  "propAudioUrl (fst (perform h cs c)) = propAudioUrl c"
  "length (engine (fst (perform h cs c))) = length (engine c)"
  using perform_frame [of h cs c] by simp_all

lemma loadSound_frame:
  "sound (loadSound c) = sound c \<and> mounted (loadSound c) = mounted c \<and>
   interval (loadSound c) = interval c \<and> pollDeps (loadSound c) = pollDeps c \<and>
   cleanupSound (loadSound c) = cleanupSound c \<and>
   length (engine (loadSound c)) = length (engine c)"
proof (cases "sound c")
  case None
  then show ?thesis by (simp add: loadSound_def)
next
  case (Some h)
  then show ?thesis
    by (simp add: loadSound_def Let_def case_prod_beta perform_simps del: perform.simps)
qed

lemma audioCleanup_frame:
  "sound (audioCleanup c) = sound c \<and> mounted (audioCleanup c) = mounted c \<and>
   interval (audioCleanup c) = interval c \<and> pollDeps (audioCleanup c) = pollDeps c \<and>
   length (engine (audioCleanup c)) = length (engine c)"
  by (simp add: audioCleanup_def perform_simps del: perform.simps split: option.splits)

lemma handle_event_poll_frame:
  assumes "e \<noteq> Unmount"
  shows "interval (handle_event e c) = interval c \<and> pollDeps (handle_event e c) = pollDeps c \<and>
         mounted (handle_event e c) = mounted c"
proof (cases e)
  case (ChangeUrl u)
  then show ?thesis
    using loadSound_frame [of "audioCleanup (c\<lparr>propAudioUrl := u\<rparr>)"]
      audioCleanup_frame [of "c\<lparr>propAudioUrl := u\<rparr>"]
    by (simp add: changeUrl_def audioEffect_def)
next
  case Unmount
  with assms show ?thesis by simp
next
  case (CreateResolved k d)
  then show ?thesis by (simp add: createResolved_def Let_def deliver_frame)
next
  case (CreateRejected k)
  then show ?thesis by (simp add: createRejected_eq loadSound_catch_def Let_def)
next
  case PressPlayPause
  then show ?thesis
    by (simp add: togglePlayPause_def Let_def case_prod_beta perform_simps del: perform.simps
        split: option.splits)
next
  case PressStop
  then show ?thesis
    by (simp add: stopAudio_def perform_simps del: perform.simps split: option.splits)
next
  case PressRestart
  then show ?thesis
    by (simp add: restartAudio_def perform_simps del: perform.simps split: option.splits)
next
  case PressRetry
  then show ?thesis using loadSound_frame [of c] by simp
next
  case Tick
  then show ?thesis
    by (simp add: pollTick_def Let_def deliver_frame split: option.splits status.splits)
next
  case (NativeAdvance h ms)
  then show ?thesis by (simp add: nativeAdvance_def Let_def deliver_frame)
next
  case (NativeFail h msg)
  then show ?thesis by (simp add: nativeFail_def deliver_frame)
qed

subsection \<open>The timer follows \<open>isPlaying\<close>\<close>

lemma unmount_poll:
  "\<not> mounted (unmount c) \<or> \<not> mounted c" "mounted c \<Longrightarrow> interval (unmount c) = None"
  using audioCleanup_frame [of "c\<lparr>mounted := False, interval := None\<rparr>"]
  by (simp_all add: unmount_def)

lemma poll_inv_commit:
  assumes "poll_inv c" and "interval c' = interval c" and "pollDeps c' = pollDeps c"
    and "mounted c' = mounted c"
  shows "poll_inv (commit c')"
  using assms by (auto simp: poll_inv_def commit_def pollEffect_def split: if_splits)

lemma poll_inv_step: "poll_inv c \<Longrightarrow> poll_inv (step e c)"
proof (cases "e = Unmount")
  case True
  assume "poll_inv c"
  then show ?thesis
    using True unmount_poll [of c]
    by (auto simp: step_def commit_def poll_inv_def unmount_def)
next
  case False
  assume "poll_inv c"
  then show ?thesis
    using handle_event_poll_frame [OF False, of c] poll_inv_commit [of c "handle_event e c"]
    by (simp add: step_def)
qed

lemma poll_inv_mount: "poll_inv (mount u)"
  by (simp add: poll_inv_def mount_def audioEffect_def loadSound_def commit_def pollEffect_def)

lemma poll_inv_run: "poll_inv c \<Longrightarrow> poll_inv (run es c)"
  by (induction es arbitrary: c) (simp_all add: poll_inv_step)

subsection \<open>Nothing plays before a sound is held\<close>

lemma list_all_update: "list_all P xs \<Longrightarrow> P x \<Longrightarrow> list_all P (xs[i := x])"
  by (induction xs arbitrary: i) (auto split: nat.splits)

lemma unload_quiet:
  "isPlaying (fst (perform h [UnloadAsync] c)) = isPlaying c \<and>
   (list_all (\<lambda>ns. \<not> playing ns) (engine c) \<longrightarrow>
    list_all (\<lambda>ns. \<not> playing ns) (engine (fst (perform h [UnloadAsync] c))))"
  by (simp add: deliver_def getStatus_def onPlaybackStatusUpdate_def list_all_update)

lemma audioCleanup_quiet:
  "isPlaying (audioCleanup c) = isPlaying c \<and>
   (list_all (\<lambda>ns. \<not> playing ns) (engine c) \<longrightarrow>
    list_all (\<lambda>ns. \<not> playing ns) (engine (audioCleanup c)))"
  using unload_quiet [of _ c]
  by (simp add: audioCleanup_def del: perform.simps split: option.splits)

lemma loadSound_None:
  "sound c = None \<Longrightarrow> isPlaying (loadSound c) = isPlaying c \<and> engine (loadSound c) = engine c"
  by (simp add: loadSound_def)

lemma sound_kept: "sound c \<noteq> None \<Longrightarrow> sound (handle_event e c) \<noteq> None"
proof (cases e)
  case (ChangeUrl u)
  assume "sound c \<noteq> None"
  with ChangeUrl show ?thesis
    using loadSound_frame [of "audioCleanup (c\<lparr>propAudioUrl := u\<rparr>)"]
      audioCleanup_frame [of "c\<lparr>propAudioUrl := u\<rparr>"]
    by (simp add: changeUrl_def audioEffect_def)
next
  case Unmount
  assume "sound c \<noteq> None"
  with Unmount show ?thesis
    using audioCleanup_frame [of "c\<lparr>mounted := False, interval := None\<rparr>"]
    by (simp add: unmount_def)
next
  case (CreateResolved k d)
  assume "sound c \<noteq> None"
  with CreateResolved show ?thesis by (simp add: createResolved_def Let_def deliver_frame)
next
  case (CreateRejected k)
  assume "sound c \<noteq> None"
  with CreateRejected show ?thesis by (simp add: createRejected_eq loadSound_catch_def Let_def)
next
  case PressPlayPause
  assume "sound c \<noteq> None"
  with PressPlayPause show ?thesis
    by (auto simp add: togglePlayPause_def Let_def case_prod_beta perform_simps
        simp del: perform.simps split: option.splits)
next
  case PressStop
  assume "sound c \<noteq> None"
  with PressStop show ?thesis
    by (auto simp add: stopAudio_def perform_simps simp del: perform.simps split: option.splits)
next
  case PressRestart
  assume "sound c \<noteq> None"
  with PressRestart show ?thesis
    by (auto simp add: restartAudio_def perform_simps simp del: perform.simps
        split: option.splits)
next
  case PressRetry
  assume "sound c \<noteq> None"
  with PressRetry show ?thesis using loadSound_frame [of c] by simp
next
  case Tick
  assume "sound c \<noteq> None"
  with Tick show ?thesis
    by (simp add: pollTick_def Let_def deliver_frame split: option.splits status.splits)
next
  case (NativeAdvance h ms)
  assume "sound c \<noteq> None"
  with NativeAdvance show ?thesis by (simp add: nativeAdvance_def Let_def deliver_frame)
next
  case (NativeFail h msg)
  assume "sound c \<noteq> None"
  with NativeFail show ?thesis by (simp add: nativeFail_def deliver_frame)
qed

lemma quiet_inv_handle:
  assumes "quiet_inv c"
  shows "quiet_inv (handle_event e c)"
proof (cases "sound c")
  case (Some h)
  then show ?thesis using sound_kept [of c e] by (auto simp: quiet_inv_def)
next
  case None
  with assms have q: "\<not> isPlaying c" "list_all (\<lambda>ns. \<not> playing ns) (engine c)"
    by (simp_all add: quiet_inv_def)
  show ?thesis
  proof (cases e)
    case (ChangeUrl u)
    then show ?thesis
      using None q audioCleanup_quiet [of "c\<lparr>propAudioUrl := u\<rparr>"]
        audioCleanup_frame [of "c\<lparr>propAudioUrl := u\<rparr>"]
        loadSound_None [of "audioCleanup (c\<lparr>propAudioUrl := u\<rparr>)"]
      by (simp add: quiet_inv_def changeUrl_def audioEffect_def)
  next
    case Unmount
    then show ?thesis
      using None q audioCleanup_quiet [of "c\<lparr>mounted := False, interval := None\<rparr>"]
        audioCleanup_frame [of "c\<lparr>mounted := False, interval := None\<rparr>"]
      by (simp add: quiet_inv_def unmount_def)
  next
    case (CreateResolved k d)
    then show ?thesis
      using None q
      by (simp add: quiet_inv_def createResolved_def Let_def deliver_def getStatus_def
          onPlaybackStatusUpdate_def)
  next
    case (CreateRejected k)
    then show ?thesis using None q by (simp add: quiet_inv_def createRejected_eq loadSound_catch_def Let_def)
  next
    case PressPlayPause
    then show ?thesis using None assms by (simp add: togglePlayPause_def)
  next
    case PressStop
    then show ?thesis using None assms by (simp add: stopAudio_def)
  next
    case PressRestart
    then show ?thesis using None assms by (simp add: restartAudio_def)
  next
    case PressRetry
    then show ?thesis
      using None q loadSound_None [of c] loadSound_frame [of c] by (simp add: quiet_inv_def)
  next
    case Tick
    then show ?thesis
      using None q
      by (auto simp: quiet_inv_def pollTick_def Let_def deliver_def getStatus_def
          onPlaybackStatusUpdate_def list_all_length split: option.splits)
  next
    case (NativeAdvance h ms)
    then show ?thesis
      using None q assms by (auto simp: nativeAdvance_def list_all_length)
  next
    case (NativeFail h msg)
    then show ?thesis
      using None q
      by (simp add: quiet_inv_def nativeFail_def deliver_def onPlaybackStatusUpdate_def
          list_all_update)
  qed
qed

lemma quiet_inv_step: "quiet_inv c \<Longrightarrow> quiet_inv (step e c)"
  using quiet_inv_handle [of c e]
  by (simp add: step_def commit_def pollEffect_def quiet_inv_def)

lemma quiet_inv_mount: "quiet_inv (mount u)"
  by (simp add: quiet_inv_def mount_def audioEffect_def loadSound_def commit_def pollEffect_def)

lemma quiet_inv_run: "quiet_inv c \<Longrightarrow> quiet_inv (run es c)"
  by (induction es arbitrary: c) (simp_all add: quiet_inv_step)

subsection \<open>Loads in flight\<close>

text \<open>
  Claim C1, as stated, fails: \<^verbatim>\<open>loadSound\<close> has no request token and makes no comparison with
  the most recently requested reference. After \<open>a.mp3\<close> and then \<open>b.mp3\<close> are requested, the
  result of the earlier load is observed when it settles: it becomes the held sound and the
  controls are shown while \<open>b.mp3\<close> is still loading (\<open>scenario_stale_first\<close>); and when both
  loads succeed and the earlier one settles last, its sound is the held one at the end,
  although \<open>b.mp3\<close> was requested last (\<open>scenario_stale_last\<close>).
\<close>

theorem C1_stale_load_observed_counterexample:
  "sound scenario_stale_first = Some 0 \<and> uri (engine scenario_stale_first ! 0) = ''a.mp3'' \<and>
   propAudioUrl scenario_stale_first = ''b.mp3'' \<and> inflight scenario_stale_first = [''b.mp3''] \<and>
   playbackState scenario_stale_first = Ready \<and>
   sound scenario_stale_last = Some 1 \<and> uri (engine scenario_stale_last ! 1) = ''a.mp3'' \<and>
   propAudioUrl scenario_stale_last = ''b.mp3'' \<and> inflight scenario_stale_last = []"
  by code_simp

text \<open>
  Claim C1, amended: the result of every load in flight is observed when it settles, whether
  or not a newer load has been issued. When the \<open>k\<close>-th pending \<^verbatim>\<open>createAsync\<close> of a mounted
  player resolves, the sound it created (for the URL that load requested) becomes the held
  sound and the loading flag is cleared, and an error reported before stays reported; when
  it rejects, the error "Failed to load audio" is reported and the loading flag is cleared.
  This holds in every state and for every pending load, so no result is detected as stale
  or discarded.
\<close>

theorem C1_every_settled_load_observed:
  assumes "mounted c" and "k < length (inflight c)"
  shows "sound (step (CreateResolved k d) c) = Some (length (engine c)) \<and>
         uri (engine (step (CreateResolved k d) c) ! length (engine c)) = inflight c ! k \<and>
         loaded (engine (step (CreateResolved k d) c) ! length (engine c)) \<and>
         \<not> isLoading (step (CreateResolved k d) c) \<and>
         error (step (CreateResolved k d) c) = error c \<and>
         error (step (CreateRejected k) c) = Some ''Failed to load audio'' \<and>
         \<not> isLoading (step (CreateRejected k) c)"
  using assms
  by (simp add: step_def commit_def pollEffect_def createResolved_def createRejected_eq
      loadSound_catch_def Let_def deliver_def getStatus_def onPlaybackStatusUpdate_def)

theorem C1_every_settled_load_observed_witness:
  "mounted (step (ChangeUrl ''b.mp3'') (mount ''a.mp3'')) \<and>
   inflight (step (ChangeUrl ''b.mp3'') (mount ''a.mp3'')) = [''a.mp3'', ''b.mp3''] \<and>
   sound (step (CreateResolved 0 (Some 10000)) (step (ChangeUrl ''b.mp3'') (mount ''a.mp3'')))
     = Some 0 \<and>
   uri (engine (step (CreateResolved 0 (Some 10000))
                  (step (ChangeUrl ''b.mp3'') (mount ''a.mp3''))) ! 0) = ''a.mp3'' \<and>
   error (step (CreateRejected 0) (step (ChangeUrl ''b.mp3'') (mount ''a.mp3'')))
     = Some ''Failed to load audio''"
proof -
  let ?c = "step (ChangeUrl ''b.mp3'') (mount ''a.mp3'')"
  have m: "mounted ?c" by code_simp
  have i: "inflight ?c = [''a.mp3'', ''b.mp3'']" by code_simp
  have e: "engine ?c = []" by code_simp
  have k: "0 < length (inflight ?c)" by (simp add: i)
  show ?thesis
    using m i e C1_every_settled_load_observed [OF m k, of "Some 10000"] by simp
qed

subsection \<open>Resources\<close>

text \<open>
  Claim C2 at its failing input. The player is mounted with \<open>a.mp3\<close>, the sound loads, and the
  player is unmounted: the cleanup of the \<^verbatim>\<open>[audioUrl]\<close> effect closed over the \<^verbatim>\<open>sound\<close> of
  the first render, which is \<^verbatim>\<open>null\<close>, so \<^verbatim>\<open>unloadAsync\<close> is never called and sound 0 is still
  loaded after teardown. And when two chapters are selected in quick succession, the second
  \<^verbatim>\<open>loadSound\<close> sees \<^verbatim>\<open>sound = null\<close> as well, and both sounds end up loaded at once.
\<close>

theorem C2_unmount_leaks_sound:
  "\<not> mounted scenario_unmount \<and> held scenario_unmount = [0] \<and>
   inflight scenario_unmount = [] \<and>
   held scenario_two_held = [0, 1] \<and> sound scenario_two_held = Some 1"
  by code_simp

subsection \<open>Polling\<close>

text \<open>
  Claim C3 at its failing inputs. The polling effect is keyed on \<^verbatim>\<open>[isPlaying, sound]\<close> and
  its comment says "Update position every second when playing", but \<^verbatim>\<open>isPlaying\<close> is written
  by the loaded branch of \<^verbatim>\<open>onPlaybackStatusUpdate\<close> only, so it stays true when playback
  ends by an error or an unload. Each run below consists of events the component can
  receive (\<open>ui_run\<close>): a track is loaded and play is pressed, and then
  \<^item> the library reports a fatal playback error: the error view is shown, no sound is
    loaded, and the timer is still set;
  \<^item> a URL that fails to load is selected: the same, in the state Error "Failed to load
    audio";
  \<^item> another chapter is selected: the old sound is unloaded and the new one is loading, and
    the timer of the old selection is still set.
\<close>

theorem C3_poll_active_in_error_state:
  "ui_run [CreateResolved 0 (Some 10000), PressPlayPause, NativeFail 0 ''decoder lost'']
     (mount ''a.mp3'') = scenario_playback_error \<and>
   mounted scenario_playback_error \<and>
   playbackState scenario_playback_error = Error ''Playback error: decoder lost'' \<and>
   held scenario_playback_error = [] \<and>
   interval scenario_playback_error = Some (Some 0) \<and>
   ui_run [CreateResolved 0 (Some 10000), PressPlayPause, ChangeUrl ''bad-url'', CreateRejected 0]
     (mount ''a.mp3'') = scenario_failed_reload \<and>
   mounted scenario_failed_reload \<and>
   playbackState scenario_failed_reload = Error ''Failed to load audio'' \<and>
   held scenario_failed_reload = [] \<and>
   interval scenario_failed_reload = Some (Some 0) \<and>
   ui_run [CreateResolved 0 (Some 10000), PressPlayPause, ChangeUrl ''b.mp3'']
     (mount ''a.mp3'') = scenario_reselect \<and>
   mounted scenario_reselect \<and>
   playbackState scenario_reselect = Loading \<and>
   held scenario_reselect = [] \<and>
   interval scenario_reselect = Some (Some 0)"
  by code_simp

text \<open>
  What the timer does follow is the \<^verbatim>\<open>isPlaying\<close> cell: in every state the player reaches
  from its mount, by any sequence of events, the timer is set if and only if the player is
  mounted and \<^verbatim>\<open>isPlaying\<close> is true. So it is not set while the state shown is Idle or Ready,
  it is set while the state shown is Playing, and unmounting clears it.
\<close>

lemma poll_active_iff_isPlaying:
  "(interval (run es (mount u)) \<noteq> None) =
     (mounted (run es (mount u)) \<and> isPlaying (run es (mount u))) \<and>
   (playbackState (run es (mount u)) = Idle \<or> playbackState (run es (mount u)) = Ready
      \<longrightarrow> interval (run es (mount u)) = None) \<and>
   (mounted (run es (mount u)) \<and> playbackState (run es (mount u)) = Playing
      \<longrightarrow> interval (run es (mount u)) \<noteq> None) \<and>
   \<not> mounted (step Unmount (run es (mount u))) \<and>
   interval (step Unmount (run es (mount u))) = None"
proof -
  let ?c = "run es (mount u)"
  have p: "poll_inv ?c" by (simp add: poll_inv_run poll_inv_mount)
  have q: "quiet_inv ?c" by (simp add: quiet_inv_run quiet_inv_mount)
  have a: "(interval ?c \<noteq> None) = (mounted ?c \<and> isPlaying ?c)"
    using p by (auto simp: poll_inv_def split: if_splits)
  have b: "playbackState ?c = Idle \<or> playbackState ?c = Ready \<longrightarrow> interval ?c = None"
    using a q
    by (auto simp: playbackState_def quiet_inv_def split: option.splits list.splits if_splits)
  have c: "mounted ?c \<and> playbackState ?c = Playing \<longrightarrow> interval ?c \<noteq> None"
    using a
    by (auto simp: playbackState_def split: option.splits list.splits if_splits)
  have "poll_inv (step Unmount ?c)" using p by (rule poll_inv_step)
  moreover have "\<not> mounted (step Unmount ?c)"
    using audioCleanup_frame [of "?c\<lparr>mounted := False, interval := None\<rparr>"]
    by (simp add: step_def commit_def unmount_def)
  ultimately have d: "\<not> mounted (step Unmount ?c) \<and> interval (step Unmount ?c) = None"
    by (simp add: poll_inv_def)
  from a b c d show ?thesis by blast
qed

subsection \<open>Transport controls\<close>

text \<open>
  Claim C4: in a mounted player that holds a loaded sound and is not playing, pressing play
  when the last reported position has reached the last reported duration, and that duration
  is positive, awaits \<^verbatim>\<open>setPositionAsync(0)\<close> and then \<^verbatim>\<open>playAsync()\<close>; afterwards the status
  of the sound and the cells of the player read position 0 and playing. When the duration is
  unknown (it reads 0) or the position is before it, play awaits \<^verbatim>\<open>playAsync()\<close> alone and
  the position of the sound is the one it had.
\<close>

theorem C4_play_replays_from_start_at_end:
  assumes "mounted c" and "sound c = Some h" and "h < length (engine c)"
    and "loaded (engine c ! h)" and "\<not> isPlaying c"
  shows "(duration c > 0 \<and> position c \<ge> duration c \<longrightarrow>
            togglePlayPause_calls c = [SetPositionAsync 0, PlayAsync] \<and>
            getStatus (engine (step PressPlayPause c) ! h) =
              StatusLoaded 0 (durationMillis (engine c ! h)) True \<and>
            position (step PressPlayPause c) = 0 \<and>
            isPlaying (step PressPlayPause c)) \<and>
         (duration c \<le> 0 \<or> position c < duration c \<longrightarrow>
            togglePlayPause_calls c = [PlayAsync] \<and>
            getStatus (engine (step PressPlayPause c) ! h) =
              StatusLoaded (positionMillis (engine c ! h)) (durationMillis (engine c ! h)) True \<and>
            position (step PressPlayPause c) = positionMillis (engine c ! h) \<and>
            isPlaying (step PressPlayPause c))"
  using assms
  by (auto simp: step_def commit_def pollEffect_def togglePlayPause_def togglePlayPause_calls_def
      deliver_def getStatus_def onPlaybackStatusUpdate_def)

theorem C4_play_replays_from_start_at_end_witness:
  "mounted scenario_finished \<and> sound scenario_finished = Some 0 \<and>
   loaded (engine scenario_finished ! 0) \<and> \<not> isPlaying scenario_finished \<and>
   duration scenario_finished = 10000 \<and> position scenario_finished = 10000 \<and>
   togglePlayPause_calls scenario_finished = [SetPositionAsync 0, PlayAsync] \<and>
   getStatus (engine (step PressPlayPause scenario_finished) ! 0) =
     StatusLoaded 0 (Some 10000) True \<and>
   position (step PressPlayPause scenario_finished) = 0 \<and>
   isPlaying (step PressPlayPause scenario_finished) \<and>
   mounted scenario_ready \<and> sound scenario_ready = Some 0 \<and>
   loaded (engine scenario_ready ! 0) \<and> \<not> isPlaying scenario_ready \<and>
   duration scenario_ready = 10000 \<and> position scenario_ready = 0 \<and>
   togglePlayPause_calls scenario_ready = [PlayAsync] \<and>
   isPlaying (step PressPlayPause scenario_ready)"
proof -
  have f: "mounted scenario_finished" "sound scenario_finished = Some 0"
    "0 < length (engine scenario_finished)" "loaded (engine scenario_finished ! 0)"
    "\<not> isPlaying scenario_finished"
    by code_simp+
  have fv: "duration scenario_finished = 10000" "position scenario_finished = 10000"
    "durationMillis (engine scenario_finished ! 0) = Some 10000"
    by code_simp+
  have r: "mounted scenario_ready" "sound scenario_ready = Some 0"
    "0 < length (engine scenario_ready)" "loaded (engine scenario_ready ! 0)"
    "\<not> isPlaying scenario_ready"
    by code_simp+
  have rv: "duration scenario_ready = 10000" "position scenario_ready = 0"
    by code_simp+
  show ?thesis
    using f fv r rv C4_play_replays_from_start_at_end [OF f]
      C4_play_replays_from_start_at_end [OF r]
    by simp
qed

text \<open>
  Claim C5: in a mounted player that holds a loaded sound, after stop the status of the sound
  reads position 0 and not playing, the sound is still loaded and still the held one (the
  set of loaded sounds is unchanged), the cells of the player read position 0 and not
  playing, and the state shown is not Idle; it is Ready when the player was Ready or Playing.
\<close>

theorem C5_stop_rewinds_and_keeps_sound:
  assumes "mounted c" and "sound c = Some h" and "h < length (engine c)"
    and "loaded (engine c ! h)"
  shows "getStatus (engine (step PressStop c) ! h) =
           StatusLoaded 0 (durationMillis (engine c ! h)) False \<and>
         loaded (engine (step PressStop c) ! h) \<and>
         held (step PressStop c) = held c \<and>
         sound (step PressStop c) = Some h \<and>
         position (step PressStop c) = 0 \<and>
         \<not> isPlaying (step PressStop c) \<and>
         playbackState (step PressStop c) \<noteq> Idle \<and>
         (playbackState c = Ready \<or> playbackState c = Playing \<longrightarrow>
            playbackState (step PressStop c) = Ready)"
  using assms
  by (auto simp: step_def commit_def pollEffect_def stopAudio_def deliver_def getStatus_def
      onPlaybackStatusUpdate_def held_def playbackState_def nth_list_update
      split: option.splits list.splits if_splits intro!: filter_cong)

theorem C5_stop_rewinds_and_keeps_sound_witness:
  "mounted scenario_midway \<and> sound scenario_midway = Some 0 \<and>
   loaded (engine scenario_midway ! 0) \<and> playbackState scenario_midway = Playing \<and>
   position scenario_midway = 2000 \<and>
   getStatus (engine (step PressStop scenario_midway) ! 0) = StatusLoaded 0 (Some 10000) False \<and>
   position (step PressStop scenario_midway) = 0 \<and>
   held (step PressStop scenario_midway) = [0] \<and>
   playbackState (step PressStop scenario_midway) = Ready"
proof -
  have m: "mounted scenario_midway" "sound scenario_midway = Some 0"
    "0 < length (engine scenario_midway)" "loaded (engine scenario_midway ! 0)"
    by code_simp+
  have v: "playbackState scenario_midway = Playing" "position scenario_midway = 2000"
    "durationMillis (engine scenario_midway ! 0) = Some 10000" "held scenario_midway = [0]"
    by code_simp+
  show ?thesis
    using m v C5_stop_rewinds_and_keeps_sound [OF m] by simp
qed

subsection \<open>A load that fails\<close>

text \<open>
  Claim C6: when a pending load of a mounted player fails, the rejection is consumed by the
  \<^verbatim>\<open>catch\<close> of \<^verbatim>\<open>loadSound\<close>, which ends normally (no exception leaves it); the player is
  left in the state Error "Failed to load audio" with the loading flag cleared, and the
  sounds are untouched. A subsequent play changes no state: the error view is shown, which
  renders no play button, so the press does nothing; and in a player that holds no sound, as
  after a first load that failed, \<^verbatim>\<open>togglePlayPause\<close> itself returns the state it was given.
\<close>

theorem C6_failed_load_reports_error_play_noop:
  assumes "mounted c" and "k < length (inflight c)"
  shows "snd (createRejected_outcome k c) \<and>
         fst (createRejected_outcome k c) = createRejected k c \<and>
         error (step (CreateRejected k) c) = Some ''Failed to load audio'' \<and>
         \<not> isLoading (step (CreateRejected k) c) \<and>
         playbackState (step (CreateRejected k) c) = Error ''Failed to load audio'' \<and>
         engine (step (CreateRejected k) c) = engine c \<and>
         render_view (step (CreateRejected k) c) = ErrorView \<and>
         ui_step PressPlayPause (step (CreateRejected k) c) = step (CreateRejected k) c \<and>
         (sound c = None \<longrightarrow>
            togglePlayPause (step (CreateRejected k) c) = step (CreateRejected k) c \<and>
            step PressPlayPause (step (CreateRejected k) c) = step (CreateRejected k) c)"
  using assms
  by (simp add: step_def ui_step_def commit_def pollEffect_def createRejected_eq
      createRejected_outcome_def try_catch_def loadSound_catch_def Let_def
      togglePlayPause_def playbackState_def render_view_def)

theorem C6_failed_load_reports_error_play_noop_witness:
  "mounted (mount ''bad-url'') \<and> sound (mount ''bad-url'') = None \<and>
   inflight (mount ''bad-url'') = [''bad-url''] \<and>
   snd (createRejected_outcome 0 (mount ''bad-url'')) \<and>
   playbackState (step (CreateRejected 0) (mount ''bad-url'')) = Error ''Failed to load audio'' \<and>
   ui_step PressPlayPause (step (CreateRejected 0) (mount ''bad-url'')) =
     step (CreateRejected 0) (mount ''bad-url'') \<and>
   togglePlayPause (step (CreateRejected 0) (mount ''bad-url'')) =
     step (CreateRejected 0) (mount ''bad-url'')"
proof -
  have m: "mounted (mount ''bad-url'')" by code_simp
  have s: "sound (mount ''bad-url'') = None" by code_simp
  have i: "inflight (mount ''bad-url'') = [''bad-url'']" by code_simp
  have k: "0 < length (inflight (mount ''bad-url''))" by (simp add: i)
  show ?thesis
    using m s i C6_failed_load_reports_error_play_noop [OF m k] by simp
qed

end
